theory Spec2Isabelle
  imports Complex_Main "HOL-Library.Sublist"
begin

section \<open>JavaScript values\<close>

text \<open>
  The arguments of a tool call and the reply of an elicitation are typed \<^verbatim>\<open>any\<close> in
  \<^verbatim>\<open>src/server/McpServer.ts\<close>: they are whatever the JSON of the request carried, or
  \<^verbatim>\<open>undefined\<close> when a field is absent. A number is kept by its value, a string as the
  list of its bytes (the code only compares and concatenates strings), an object as the
  list of its properties, where the first binding of a key is the property's value.
\<close>

datatype jsval =
    JUndefined
  | JNull
  | JBool bool
  | JNum real
  | JStr string
  | JArr "jsval list"
  | JObj "(string \<times> jsval) list"

text \<open>What \<^verbatim>\<open>!v\<close>, \<^verbatim>\<open>v && ...\<close> and \<^verbatim>\<open>v || ...\<close> test.\<close>

fun truthy :: "jsval \<Rightarrow> bool" where
  "truthy JUndefined = False"
| "truthy JNull = False"
| "truthy (JBool b) = b"
| "truthy (JNum x) = (x \<noteq> 0)"
| "truthy (JStr s) = (s \<noteq> [])"
| "truthy (JArr xs) = True"
| "truthy (JObj kvs) = True"

text \<open>
  The value of \<^verbatim>\<open>v?.k\<close> for the property names the code reads (\<^verbatim>\<open>flavour\<close>,
  \<^verbatim>\<open>action\<close>, \<^verbatim>\<open>content\<close>): an object yields its property or \<^verbatim>\<open>undefined\<close>;
  a primitive or an array has no property of these names. Where the source writes the
  plain \<^verbatim>\<open>v.k\<close>, \<^verbatim>\<open>v\<close> is never \<^verbatim>\<open>null\<close> or \<^verbatim>\<open>undefined\<close>: line 56 reads from
  \<^verbatim>\<open>args || {}\<close> and line 75 reads \<^verbatim>\<open>result.action\<close> behind \<^verbatim>\<open>result &&\<close>.
\<close>

fun get_prop :: "jsval \<Rightarrow> string \<Rightarrow> jsval" where
  "get_prop (JObj kvs) k = (case map_of kvs k of Some v \<Rightarrow> v | None \<Rightarrow> JUndefined)"
| "get_prop JUndefined k = JUndefined"
| "get_prop JNull k = JUndefined"
| "get_prop (JBool b) k = JUndefined"
| "get_prop (JNum x) k = JUndefined"
| "get_prop (JStr s) k = JUndefined"
| "get_prop (JArr xs) k = JUndefined"

text \<open>\<^verbatim>\<open>Array.prototype.join\<close> on an array of strings.\<close>

fun join :: "string \<Rightarrow> string list \<Rightarrow> string" where
  "join sep [] = []"
| "join sep [x] = x"
| "join sep (x # y # ys) = x @ sep @ join sep (y # ys)"

section \<open>Promises, thrown values and the elicitation channel\<close>

text \<open>
  A thrown value is either an \<^verbatim>\<open>Error\<close> instance, kept by its \<^verbatim>\<open>message\<close>, or
  something else, kept by what \<^verbatim>\<open>String(error)\<close> makes of it: \<^verbatim>\<open>handleToolError\<close>
  reads nothing else from it.
\<close>

datatype thrown = JsError string | NonError string

text \<open>
  An \<^verbatim>\<open>async\<close> function returns a promise: it is fulfilled with a value, rejected with
  a thrown value, or never settled (the elicitation has no timeout).
\<close>

datatype 'a outcome = Fulfilled 'a | Rejected thrown | Pending

record elicit_params =
  message :: string
  requestedSchema :: jsval

type_synonym elicit_fn = "elicit_params \<Rightarrow> jsval outcome"

text \<open>
  What an invocation did before its promise settled, in order: a call of
  \<^verbatim>\<open>elicitInput\<close> with its parameters, and the evaluation of the \<^verbatim>\<open>switch\<close>
  that looks the toppings up (lines 87 to 104) with the value it switches on.
\<close>

datatype event = Elicit elicit_params | Lookup jsval

fun is_Elicit :: "event \<Rightarrow> bool" where
  "is_Elicit (Elicit p) = True"
| "is_Elicit (Lookup v) = False"

fun is_Lookup :: "event \<Rightarrow> bool" where
  "is_Lookup (Lookup v) = True"
| "is_Lookup (Elicit p) = False"

section \<open>Tool results\<close>

text \<open>
  A content block \<^verbatim>\<open>{ type: "text", text: ... }\<close>. The field \<^verbatim>\<open>isError\<close> of a result is
  optional: an object literal written without it has no such property (\<open>None\<close>).
\<close>

datatype content_block = Text string

record tool_result =
  content :: "content_block list"
  isError :: "bool option"

text \<open>The value a promise is fulfilled with, when it is.\<close>

fun fulfilled :: "'a outcome \<Rightarrow> 'a option" where
  "fulfilled (Fulfilled r) = Some r"
| "fulfilled (Rejected e) = None"
| "fulfilled Pending = None"

section \<open>The tool \<^verbatim>\<open>IceCreamToppingRecommenderTool\<close>\<close>

text \<open>
  The two marks that open the texts, as the bytes of the source file between the quote
  and the first space of each literal.
\<close>

definition cross_mark :: string where
  "cross_mark = [CHR 0xE2, CHR 0x80, CHR 0x9A, CHR 0xC3, CHR 0xB9, CHR 0xC3, CHR 0xA5]"

definition ice_cream_mark :: string where
  "ice_cream_mark =
     [CHR 0xEF, CHR 0xA3, CHR 0xBF, CHR 0xC3, CHR 0xBC, CHR 0xC3, CHR 0xA7, CHR 0xC2, CHR 0xB6]"

definition getName :: string where
  "getName = ''ice_cream_topping_recommender''"

definition getDescription :: string where
  "getDescription = ''Recommends the best ice cream toppings based on your selected flavour.''"

text \<open>
  \<^verbatim>\<open>getInputSchema\<close> returns a Zod schema object, built by \<^verbatim>\<open>z.object\<close>, \<^verbatim>\<open>z.enum\<close> and
  \<^verbatim>\<open>.describe\<close>; it is a value of the Zod library, not a plain JSON object.
\<close>

datatype zod =
    Z_enum "string list"
  | Z_object "(string \<times> zod) list"
  | Describe zod string

definition getInputSchema :: zod where
  "getInputSchema =
     Z_object
       [(''flavour'',
         Describe (Z_enum [''vanilla'', ''strawberry'', ''chocolate''])
           ''Choose a flavour: vanilla, strawberry, or chocolate.'')]"

text \<open>The object literal \<^verbatim>\<open>jsonSchema\<close> of lines 60 to 70.\<close>

definition jsonSchema :: jsval where
  "jsonSchema =
     JObj
       [(''type'', JStr ''object''),
        (''properties'',
         JObj
           [(''flavour'',
             JObj
               [(''type'', JStr ''string''),
                (''enum'', JArr [JStr ''vanilla'', JStr ''strawberry'', JStr ''chocolate'']),
                (''description'',
                 JStr ''Choose a flavour: vanilla, strawberry, or chocolate.'')])]),
        (''required'', JArr [JStr ''flavour''])]"

text \<open>The parameters of the one call of \<^verbatim>\<open>elicitInput\<close>, lines 71 to 74.\<close>

definition elicit_request :: elicit_params where
  "elicit_request =
     \<lparr>message =
        ''Which ice cream flavour do you want toppings for? (vanilla, strawberry, or chocolate)'',
      requestedSchema = jsonSchema\<rparr>"

text \<open>The early return of lines 78 to 83.\<close>

definition cancelled_result :: tool_result where
  "cancelled_result =
     \<lparr>content = [Text (cross_mark @ '' Cancelled by user or no flavour selected.'')],
      isError = Some True\<rparr>"

text \<open>The \<^verbatim>\<open>default\<close> branch, lines 98 to 103.\<close>

definition unknown_flavour_result :: tool_result where
  "unknown_flavour_result =
     \<lparr>content = [Text (cross_mark @ '' Unknown flavour.'')], isError = Some True\<rparr>"

text \<open>
  The three \<^verbatim>\<open>case\<close> labels of the \<^verbatim>\<open>switch\<close>, in the order of the source; \<open>None\<close>
  is the \<^verbatim>\<open>default\<close> branch.
\<close>

definition toppings :: "string \<Rightarrow> string list option" where
  "toppings flavour =
     (if flavour = ''vanilla'' then
        Some [''caramel sauce'', ''rainbow sprinkles'', ''crushed cookies'']
      else if flavour = ''strawberry'' then
        Some [''white chocolate chips'', ''fresh berries'', ''whipped cream'']
      else if flavour = ''chocolate'' then
        Some [''chopped nuts'', ''marshmallows'', ''hot fudge'']
      else None)"

text \<open>
  Lines 86 to 112: the \<^verbatim>\<open>switch\<close> compares with \<^verbatim>\<open>===\<close>, so a value that is not a
  string takes the \<^verbatim>\<open>default\<close> branch; the object returned at the end is written
  without \<^verbatim>\<open>isError\<close>.
\<close>

fun recommend :: "jsval \<Rightarrow> tool_result" where
  "recommend (JStr flavour) =
     (case toppings flavour of
        Some ts \<Rightarrow>
          \<lparr>content =
             [Text (ice_cream_mark @ '' For '' @ flavour @
                    '' ice cream, the best toppings are: '' @ join '', '' ts @ ''.'')],
           isError = None\<rparr>
      | None \<Rightarrow> unknown_flavour_result)"
| "recommend JUndefined = unknown_flavour_result"
| "recommend JNull = unknown_flavour_result"
| "recommend (JBool b) = unknown_flavour_result"
| "recommend (JNum x) = unknown_flavour_result"
| "recommend (JArr xs) = unknown_flavour_result"
| "recommend (JObj kvs) = unknown_flavour_result"

text \<open>
  \<^verbatim>\<open>execute(args, elicitInput?)\<close>, lines 55 to 113. The result is the list of events
  of the invocation and the outcome of the promise it returns. The block of lines 58 to
  85 is entered when \<^verbatim>\<open>!flavour && elicitInput\<close> holds, that is with a falsy flavour
  and a channel; every other call goes straight to the \<^verbatim>\<open>switch\<close>. A rejection of the
  awaited \<^verbatim>\<open>elicitInput\<close> rejects \<^verbatim>\<open>execute\<close>, and a promise that never settles leaves
  \<^verbatim>\<open>execute\<close> pending.
\<close>

definition execute :: "jsval \<Rightarrow> elicit_fn option \<Rightarrow> event list \<times> tool_result outcome" where
  "execute args elicitInput =
     (let flavour = get_prop (if truthy args then args else JObj []) ''flavour'' in
      case (if \<not> truthy flavour then elicitInput else None) of
        Some elicit \<Rightarrow>
          (case elicit elicit_request of
             Pending \<Rightarrow> ([Elicit elicit_request], Pending)
           | Rejected e \<Rightarrow> ([Elicit elicit_request], Rejected e)
           | Fulfilled result \<Rightarrow>
               if truthy result \<and> get_prop result ''action'' = JStr ''accept'' \<and>
                  truthy (get_prop (get_prop result ''content'') ''flavour'')
               then
                 (let flavour = get_prop (get_prop result ''content'') ''flavour'' in
                  ([Elicit elicit_request, Lookup flavour], Fulfilled (recommend flavour)))
               else ([Elicit elicit_request], Fulfilled cancelled_result))
      | None \<Rightarrow> ([Lookup flavour], Fulfilled (recommend flavour)))"

section \<open>The server \<^verbatim>\<open>IceCreamMcpServer\<close>\<close>

text \<open>
  The class \<^verbatim>\<open>IceCreamToppingRecommenderTool\<close> has no fields and its methods do not read
  \<^verbatim>\<open>this\<close>: it has one value, and its methods are the constants above. The server
  object has the two fields of the class; \<^verbatim>\<open>server\<close> is the \<^verbatim>\<open>Server\<close> of the SDK.
\<close>

datatype IceCreamToppingRecommenderTool = IceCreamToppingRecommenderTool

record 'srv IceCreamMcpServer =
  server :: 'srv
  tool :: IceCreamToppingRecommenderTool

record tool_descriptor =
  name :: string
  description :: string
  inputSchema :: zod

record list_tools_result =
  tools :: "tool_descriptor list"

text \<open>\<^verbatim>\<open>request.params\<close> of a call request.\<close>

record call_tool_params =
  name :: string
  arguments :: jsval

text \<open>
  The handler registered for \<^verbatim>\<open>ListToolsRequestSchema\<close>, lines 149 to 159. A handler
  takes the server object and gives it back with its answer.
\<close>

definition list_tools_handler ::
  "'srv IceCreamMcpServer \<Rightarrow> list_tools_result outcome \<times> 'srv IceCreamMcpServer" where
  "list_tools_handler this =
     (Fulfilled
        \<lparr>tools =
           [\<lparr>tool_descriptor.name = getName, description = getDescription,
             inputSchema = getInputSchema\<rparr>]\<rparr>,
      this)"

text \<open>
  \<^verbatim>\<open>error instanceof Error ? error.message : String(error)\<close>, line 181.
\<close>

fun errorMessage :: "thrown \<Rightarrow> string" where
  "errorMessage (JsError m) = m"
| "errorMessage (NonError s) = s"

text \<open>\<^verbatim>\<open>handleToolError(error, toolName)\<close>, lines 180 to 192, without its log line.\<close>

definition handleToolError :: "thrown \<Rightarrow> string \<Rightarrow> tool_result" where
  "handleToolError error toolName =
     \<lparr>content = [Text (cross_mark @ '' Error in '' @ toolName @ '': '' @ errorMessage error)],
      isError = Some True\<rparr>"

text \<open>
  The handler registered for \<^verbatim>\<open>CallToolRequestSchema\<close>, lines 160 to 174. The
  argument \<open>elicit\<close> is \<^verbatim>\<open>this.server.elicitInput\<close>, which the handler wraps and
  passes to the tool. The \<^verbatim>\<open>catch\<close> takes both the \<^verbatim>\<open>Error\<close> thrown at line 164 and
  a rejection of the awaited \<^verbatim>\<open>execute\<close>.
\<close>

definition call_tool_handler ::
  "'srv IceCreamMcpServer \<Rightarrow> call_tool_params \<Rightarrow> elicit_fn \<Rightarrow>
     (event list \<times> tool_result outcome) \<times> 'srv IceCreamMcpServer" where
  "call_tool_handler this params elicit =
     (if name params \<noteq> getName then
        (([], Fulfilled
                (handleToolError (JsError (''Unknown tool: '' @ name params)) (name params))),
         this)
      else
        (case execute (arguments params) (Some elicit) of
           (evs, Rejected error) \<Rightarrow>
             ((evs, Fulfilled (handleToolError error (name params))), this)
         | (evs, Fulfilled r) \<Rightarrow> ((evs, Fulfilled r), this)
         | (evs, Pending) \<Rightarrow> ((evs, Pending), this)))"

section \<open>Replies of the caller and schemas on the wire\<close>

text \<open>
  The reply to an elicitation, \<^verbatim>\<open>{ action, content? }\<close>, and its three kinds.
\<close>

definition elicit_result :: "string \<Rightarrow> (string \<times> jsval) list option \<Rightarrow> jsval" where
  "elicit_result action c =
     JObj ((''action'', JStr action) #
           (case c of Some kvs \<Rightarrow> [(''content'', JObj kvs)] | None \<Rightarrow> []))"

abbreviation Accepted :: "(string \<times> jsval) list \<Rightarrow> jsval" where
  "Accepted kvs \<equiv> elicit_result ''accept'' (Some kvs)"

abbreviation Declined :: jsval where
  "Declined \<equiv> elicit_result ''decline'' None"

abbreviation Cancelled :: jsval where
  "Cancelled \<equiv> elicit_result ''cancel'' None"

text \<open>A channel that settles every request the same way.\<close>

definition reply :: "jsval outcome \<Rightarrow> elicit_fn" where
  "reply r p = r"

text \<open>
  The shape \<^verbatim>\<open>{type:"object", properties: {field: {type, enum?, description?}},
  required: [field,...]}\<close> of a schema on the wire: \<^verbatim>\<open>type\<close> is the string
  \<^verbatim>\<open>object\<close>, every property has a string \<^verbatim>\<open>type\<close>, an \<^verbatim>\<open>enum\<close> (when present)
  that is an array of strings and a \<^verbatim>\<open>description\<close> (when present) that is a string,
  and \<^verbatim>\<open>required\<close> is an array of names of properties.
\<close>

fun is_JStr :: "jsval \<Rightarrow> bool" where
  "is_JStr (JStr s) = True"
| "is_JStr JUndefined = False"
| "is_JStr JNull = False"
| "is_JStr (JBool b) = False"
| "is_JStr (JNum x) = False"
| "is_JStr (JArr xs) = False"
| "is_JStr (JObj kvs) = False"

definition field_shape :: "jsval \<Rightarrow> bool" where
  "field_shape f =
     (case f of
        JObj kvs \<Rightarrow>
          is_JStr (get_prop f ''type'') \<and>
          (case map_of kvs ''enum'' of
             None \<Rightarrow> True
           | Some (JArr xs) \<Rightarrow> list_all is_JStr xs
           | Some other \<Rightarrow> False) \<and>
          (case map_of kvs ''description'' of
             None \<Rightarrow> True
           | Some d \<Rightarrow> is_JStr d)
      | other \<Rightarrow> False)"

definition wire_shape :: "jsval \<Rightarrow> bool" where
  "wire_shape v =
     (get_prop v ''type'' = JStr ''object'' \<and>
      (case get_prop v ''properties'' of
         JObj props \<Rightarrow>
           list_all field_shape (map snd props) \<and>
           (case get_prop v ''required'' of
              JArr rs \<Rightarrow> list_all (\<lambda>r. r \<in> set (map (JStr \<circ> fst) props)) rs
            | other \<Rightarrow> False)
       | other \<Rightarrow> False))"

section \<open>Direct input\<close>

lemma toppings_cases:
  "toppings ''vanilla'' = Some [''caramel sauce'', ''rainbow sprinkles'', ''crushed cookies'']"
  "toppings ''strawberry'' =
     Some [''white chocolate chips'', ''fresh berries'', ''whipped cream'']"
  "toppings ''chocolate'' = Some [''chopped nuts'', ''marshmallows'', ''hot fudge'']"
  by (simp_all add: toppings_def)

lemma execute_direct:
  assumes "s \<noteq> []"
  shows "execute (JObj [(''flavour'', JStr s)]) el =
           ([Lookup (JStr s)], Fulfilled (recommend (JStr s)))"
  using assms by (simp add: execute_def)

lemma execute_absent:
  "execute (JObj []) (Some elicit) =
     (case elicit elicit_request of
        Pending \<Rightarrow> ([Elicit elicit_request], Pending)
      | Rejected e \<Rightarrow> ([Elicit elicit_request], Rejected e)
      | Fulfilled result \<Rightarrow>
          if truthy result \<and> get_prop result ''action'' = JStr ''accept'' \<and>
             truthy (get_prop (get_prop result ''content'') ''flavour'')
          then ([Elicit elicit_request,
                 Lookup (get_prop (get_prop result ''content'') ''flavour'')],
                Fulfilled (recommend (get_prop (get_prop result ''content'') ''flavour'')))
          else ([Elicit elicit_request], Fulfilled cancelled_result))"
  by (simp add: execute_def Let_def split: outcome.split)

lemma recommend_unknown:
  assumes "v \<notin> {JStr ''vanilla'', JStr ''strawberry'', JStr ''chocolate''}"
  shows "recommend v = unknown_flavour_result"
  using assms by (cases v) (simp_all add: toppings_def)

lemma execute_truthy_flavour:
  assumes "truthy v"
  shows "execute (JObj [(''flavour'', v)]) el = ([Lookup v], Fulfilled (recommend v))"
  using assms by (simp add: execute_def)

lemma execute_trace_shape:
  "fst (execute args el) = [Lookup (get_prop (if truthy args then args else JObj []) ''flavour'')]
   \<or> fst (execute args el) = [Elicit elicit_request]
   \<or> (\<exists>v. fst (execute args el) = [Elicit elicit_request, Lookup v])"
  by (simp add: execute_def Let_def split: option.split outcome.split)

text \<open>
  C1, as the code has it. For each of the three flavours, \<^verbatim>\<open>execute({flavour: f})\<close>,
  with or without a channel, looks the toppings up without eliciting and is fulfilled
  with a result whose content is one text block, the sentence that carries the three
  toppings of that flavour joined by a comma and a space in the order of the source.
  The result has no \<^verbatim>\<open>isError\<close> field: the object of lines 105 to 112 is written
  without one.
\<close>

theorem execute_known_flavour:
  "execute (JObj [(''flavour'', JStr ''vanilla'')]) el =
     ([Lookup (JStr ''vanilla'')],
      Fulfilled
        \<lparr>content =
           [Text (ice_cream_mark @
              '' For vanilla ice cream, the best toppings are: caramel sauce, rainbow sprinkles, crushed cookies.'')],
         isError = None\<rparr>) \<and>
   execute (JObj [(''flavour'', JStr ''strawberry'')]) el =
     ([Lookup (JStr ''strawberry'')],
      Fulfilled
        \<lparr>content =
           [Text (ice_cream_mark @
              '' For strawberry ice cream, the best toppings are: white chocolate chips, fresh berries, whipped cream.'')],
         isError = None\<rparr>) \<and>
   execute (JObj [(''flavour'', JStr ''chocolate'')]) el =
     ([Lookup (JStr ''chocolate'')],
      Fulfilled
        \<lparr>content =
           [Text (ice_cream_mark @
              '' For chocolate ice cream, the best toppings are: chopped nuts, marshmallows, hot fudge.'')],
         isError = None\<rparr>)"
  by (simp add: execute_direct toppings_cases)

text \<open>
  C1, as the claim states it, fails: the result of \<^verbatim>\<open>execute({flavour: "vanilla"})\<close>
  does not carry \<^verbatim>\<open>isError\<close> with the value \<^verbatim>\<open>false\<close>.
\<close>

theorem execute_vanilla_isError_not_false:
  "map_option isError (fulfilled (snd (execute (JObj [(''flavour'', JStr ''vanilla'')]) None)))
     \<noteq> Some (Some False)"
  by (simp add: execute_direct toppings_cases)

section \<open>Elicited input\<close>

text \<open>
  C2. For each of the three flavours \<open>v\<close>, \<^verbatim>\<open>execute({})\<close> with a channel that answers
  Accepted with content \<^verbatim>\<open>{flavour: v}\<close> is fulfilled with the same result as
  \<^verbatim>\<open>execute({flavour: v})\<close>, called with any channel or none: the recommendation
  for \<open>v\<close>.
\<close>

theorem elicited_equals_direct:
  assumes "v \<in> {''vanilla'', ''strawberry'', ''chocolate''}"
    and "elicit elicit_request = Fulfilled (Accepted [(''flavour'', JStr v)])"
  shows "snd (execute (JObj []) (Some elicit)) = snd (execute (JObj [(''flavour'', JStr v)]) el)
         \<and> snd (execute (JObj []) (Some elicit)) = Fulfilled (recommend (JStr v))"
proof -
  from assms(1) have ne: "v \<noteq> []" by auto
  have "snd (execute (JObj []) (Some elicit)) = Fulfilled (recommend (JStr v))"
    using ne assms(2) by (simp add: execute_absent elicit_result_def)
  moreover have "snd (execute (JObj [(''flavour'', JStr v)]) el) = Fulfilled (recommend (JStr v))"
    using ne by (simp add: execute_direct)
  ultimately show ?thesis by simp
qed

theorem elicited_equals_direct_witness:
  "snd (execute (JObj []) (Some (reply (Fulfilled (Accepted [(''flavour'', JStr ''vanilla'')])))))
     = snd (execute (JObj [(''flavour'', JStr ''vanilla'')]) None)"
  using elicited_equals_direct
    [of "''vanilla''" "reply (Fulfilled (Accepted [(''flavour'', JStr ''vanilla'')]))" None]
  by (simp add: reply_def)

text \<open>
  C4, as the claim states it, fails: when the channel answers Accepted with the content
  \<^verbatim>\<open>{flavour: "mango"}\<close>, a value that is not one of the three flavours, the result
  is an error, but it is the one of the \<^verbatim>\<open>default\<close> branch of the \<^verbatim>\<open>switch\<close>. Its
  text says that the flavour is unknown and says nothing of a cancellation or of a
  missing selection.
\<close>

theorem accepted_invalid_is_unknown_flavour:
  "snd (execute (JObj []) (Some (reply (Fulfilled (Accepted [(''flavour'', JStr ''mango'')]))))) =
     Fulfilled \<lparr>content = [Text (cross_mark @ '' Unknown flavour.'')], isError = Some True\<rparr>
   \<and> snd (execute (JObj []) (Some (reply (Fulfilled (Accepted [(''flavour'', JStr ''mango'')])))))
       \<noteq> Fulfilled cancelled_result
   \<and> \<not> sublist ''ancel'' (cross_mark @ '' Unknown flavour.'')
   \<and> \<not> sublist ''select'' (cross_mark @ '' Unknown flavour.'')"
  by (simp add: execute_absent reply_def elicit_result_def toppings_def
      unknown_flavour_result_def cancelled_result_def cross_mark_def sublist_Cons_right)

text \<open>
  C4, as the code has it. \<^verbatim>\<open>execute({})\<close> with a channel elicits once. When the reply
  is Declined or Cancelled (with or without content), or Accepted without content, or
  Accepted with a content whose \<^verbatim>\<open>flavour\<close> is absent or falsy, the call returns at
  once the result with \<^verbatim>\<open>isError\<close> true and the text that the user cancelled or
  selected no flavour. When the reply is Accepted with a truthy \<^verbatim>\<open>flavour\<close> that is not
  one of the three flavours, the value goes to the \<^verbatim>\<open>switch\<close> and the call returns the
  result with \<^verbatim>\<open>isError\<close> true and the text that the flavour is unknown.
\<close>

theorem elicitation_failures:
  "(a \<in> {''decline'', ''cancel''} \<and> elicit elicit_request = Fulfilled (elicit_result a c) \<longrightarrow>
      execute (JObj []) (Some elicit) = ([Elicit elicit_request], Fulfilled cancelled_result)) \<and>
   (elicit elicit_request = Fulfilled (elicit_result ''accept'' None) \<longrightarrow>
      execute (JObj []) (Some elicit) = ([Elicit elicit_request], Fulfilled cancelled_result)) \<and>
   (elicit elicit_request = Fulfilled (Accepted kvs) \<and>
    \<not> truthy (get_prop (JObj kvs) ''flavour'') \<longrightarrow>
      execute (JObj []) (Some elicit) = ([Elicit elicit_request], Fulfilled cancelled_result)) \<and>
   (elicit elicit_request = Fulfilled (Accepted kvs) \<and>
    truthy (get_prop (JObj kvs) ''flavour'') \<and>
    get_prop (JObj kvs) ''flavour'' \<notin> {JStr ''vanilla'', JStr ''strawberry'', JStr ''chocolate''} \<longrightarrow>
      execute (JObj []) (Some elicit) =
        ([Elicit elicit_request, Lookup (get_prop (JObj kvs) ''flavour'')],
         Fulfilled unknown_flavour_result)) \<and>
   isError cancelled_result = Some True \<and>
   content cancelled_result =
     [Text (cross_mark @ '' Cancelled by user or no flavour selected.'')] \<and>
   isError unknown_flavour_result = Some True \<and>
   content unknown_flavour_result = [Text (cross_mark @ '' Unknown flavour.'')]"
proof -
  have 1: "a \<in> {''decline'', ''cancel''} \<and>
      elicit elicit_request = Fulfilled (elicit_result a c) \<longrightarrow>
      execute (JObj []) (Some elicit) = ([Elicit elicit_request], Fulfilled cancelled_result)"
    by (auto simp add: execute_absent elicit_result_def)
  have 2: "elicit elicit_request = Fulfilled (elicit_result ''accept'' None) \<longrightarrow>
      execute (JObj []) (Some elicit) = ([Elicit elicit_request], Fulfilled cancelled_result)"
    by (simp add: execute_absent elicit_result_def)
  have 3: "elicit elicit_request = Fulfilled (Accepted kvs) \<and>
      \<not> truthy (get_prop (JObj kvs) ''flavour'') \<longrightarrow>
      execute (JObj []) (Some elicit) = ([Elicit elicit_request], Fulfilled cancelled_result)"
    by (simp add: execute_absent elicit_result_def)
  have 4: "elicit elicit_request = Fulfilled (Accepted kvs) \<and>
      truthy (get_prop (JObj kvs) ''flavour'') \<and>
      get_prop (JObj kvs) ''flavour'' \<notin>
        {JStr ''vanilla'', JStr ''strawberry'', JStr ''chocolate''} \<longrightarrow>
      execute (JObj []) (Some elicit) =
        ([Elicit elicit_request, Lookup (get_prop (JObj kvs) ''flavour'')],
         Fulfilled unknown_flavour_result)"
    using recommend_unknown [of "get_prop (JObj kvs) ''flavour''"]
    by (simp add: execute_absent elicit_result_def)
  show ?thesis using 1 2 3 4
    by (simp add: cancelled_result_def unknown_flavour_result_def)
qed

text \<open>
  The four cases of C4 at concrete replies: Cancelled, Accepted without content,
  Accepted with an empty content, and Accepted with the flavour \<^verbatim>\<open>mango\<close>.
\<close>

theorem elicitation_failures_witness:
  "execute (JObj []) (Some (reply (Fulfilled Cancelled))) =
     ([Elicit elicit_request], Fulfilled cancelled_result) \<and>
   execute (JObj []) (Some (reply (Fulfilled (elicit_result ''accept'' None)))) =
     ([Elicit elicit_request], Fulfilled cancelled_result) \<and>
   execute (JObj []) (Some (reply (Fulfilled (Accepted [])))) =
     ([Elicit elicit_request], Fulfilled cancelled_result) \<and>
   execute (JObj []) (Some (reply (Fulfilled (Accepted [(''flavour'', JStr ''mango'')])))) =
     ([Elicit elicit_request, Lookup (JStr ''mango'')], Fulfilled unknown_flavour_result)"
  using elicitation_failures [of "''cancel''" "reply (Fulfilled Cancelled)" None "[]"]
    elicitation_failures [of "''cancel''" "reply (Fulfilled (elicit_result ''accept'' None))"]
    elicitation_failures [of "''cancel''" "reply (Fulfilled (Accepted []))" None "[]"]
    elicitation_failures
      [of "''cancel''" "reply (Fulfilled (Accepted [(''flavour'', JStr ''mango'')]))" None
          "[(''flavour'', JStr ''mango'')]"]
  by (simp add: reply_def)

text \<open>
  C6. \<^verbatim>\<open>execute({})\<close> with a channel that answers Cancelled or Declined calls the channel
  once and returns at once the result with \<^verbatim>\<open>isError\<close> true and the text that the
  user cancelled or selected no flavour: the \<^verbatim>\<open>switch\<close> that looks the toppings up is
  not evaluated, and the channel is not called a second time.
\<close>

theorem cancelled_is_terminal:
  assumes "a \<in> {''cancel'', ''decline''}"
    and "elicit elicit_request = Fulfilled (elicit_result a c)"
  shows "execute (JObj []) (Some elicit) =
           ([Elicit elicit_request],
            Fulfilled
              \<lparr>content = [Text (cross_mark @ '' Cancelled by user or no flavour selected.'')],
               isError = Some True\<rparr>)
         \<and> filter is_Lookup (fst (execute (JObj []) (Some elicit))) = []
         \<and> length (filter is_Elicit (fst (execute (JObj []) (Some elicit)))) = 1"
  using assms by (auto simp add: execute_absent elicit_result_def cancelled_result_def)

text \<open>C6 at the two replies Cancelled and Declined.\<close>

theorem cancelled_is_terminal_witness:
  "execute (JObj []) (Some (reply (Fulfilled Cancelled))) =
     ([Elicit elicit_request],
      Fulfilled
        \<lparr>content = [Text (cross_mark @ '' Cancelled by user or no flavour selected.'')],
         isError = Some True\<rparr>) \<and>
   execute (JObj []) (Some (reply (Fulfilled Declined))) =
     ([Elicit elicit_request],
      Fulfilled
        \<lparr>content = [Text (cross_mark @ '' Cancelled by user or no flavour selected.'')],
         isError = Some True\<rparr>)"
  using cancelled_is_terminal [of "''cancel''" "reply (Fulfilled Cancelled)" None]
    cancelled_is_terminal [of "''decline''" "reply (Fulfilled Declined)" None]
  by (simp add: reply_def)

text \<open>
  C7. Whatever the arguments, the channel and its reply, an invocation of \<^verbatim>\<open>execute\<close>
  calls the channel at most once, and a call of the channel is the first event of the
  invocation: it comes before the lookup and so before the result, and nothing after
  the first event is a call of the channel. An Accepted reply with an invalid content
  is among the replies quantified over, so it starts no second call.
\<close>

theorem elicit_at_most_once:
  "length (filter is_Elicit (fst (execute args el))) \<le> 1 \<and>
   filter is_Elicit (tl (fst (execute args el))) = []"
  using execute_trace_shape [of args el] by auto

section \<open>Invalid and empty flavours\<close>

text \<open>
  C3, as the claim states it, fails twice. The text returned for
  \<^verbatim>\<open>execute({flavour: "mango"})\<close> is the fixed text of the \<^verbatim>\<open>default\<close> branch, in which
  \<^verbatim>\<open>mango\<close> does not occur. And the empty string, a value outside the enumerated set,
  is falsy: with a channel, \<^verbatim>\<open>execute({flavour: ""})\<close> calls the channel.
\<close>

theorem execute_mango_text_is_fixed:
  "snd (execute (JObj [(''flavour'', JStr ''mango'')]) None) =
     Fulfilled \<lparr>content = [Text (cross_mark @ '' Unknown flavour.'')], isError = Some True\<rparr>
   \<and> \<not> sublist ''mango'' (cross_mark @ '' Unknown flavour.'')
   \<and> fst (execute (JObj [(''flavour'', JStr '''')]) (Some (reply Pending))) =
       [Elicit elicit_request]"
  by (simp add: execute_direct toppings_def unknown_flavour_result_def cross_mark_def
      sublist_Cons_right execute_def reply_def)

text \<open>
  C3, as the code has it. For a truthy value \<open>v\<close> that is not one of the three flavour
  strings (a non-empty string such as \<^verbatim>\<open>mango\<close>, a non-zero number, \<^verbatim>\<open>true\<close>, an array
  or an object), \<^verbatim>\<open>execute({flavour: v})\<close> returns the result with \<^verbatim>\<open>isError\<close> true and
  the fixed text that the flavour is unknown, and the channel, present or not, is not
  called.
\<close>

theorem execute_unknown_flavour:
  assumes "truthy v"
    and "v \<notin> {JStr ''vanilla'', JStr ''strawberry'', JStr ''chocolate''}"
  shows "execute (JObj [(''flavour'', v)]) el =
           ([Lookup v],
            Fulfilled
              \<lparr>content = [Text (cross_mark @ '' Unknown flavour.'')], isError = Some True\<rparr>)
         \<and> filter is_Elicit (fst (execute (JObj [(''flavour'', v)]) el)) = []"
  using assms
  by (simp add: execute_truthy_flavour recommend_unknown unknown_flavour_result_def)

text \<open>C3 at the flavour \<^verbatim>\<open>mango\<close>, with a channel that would accept \<^verbatim>\<open>vanilla\<close>.\<close>

theorem execute_unknown_flavour_witness:
  "execute (JObj [(''flavour'', JStr ''mango'')])
     (Some (reply (Fulfilled (Accepted [(''flavour'', JStr ''vanilla'')])))) =
     ([Lookup (JStr ''mango'')],
      Fulfilled \<lparr>content = [Text (cross_mark @ '' Unknown flavour.'')], isError = Some True\<rparr>)"
  using execute_unknown_flavour
    [of "JStr ''mango''" "Some (reply (Fulfilled (Accepted [(''flavour'', JStr ''vanilla'')])))"]
  by simp

text \<open>
  C10. A flavour that is the empty string is treated as an absent one. With a channel,
  \<^verbatim>\<open>execute({flavour: ""})\<close> does what \<^verbatim>\<open>execute({})\<close> does, event for event, and its
  first event is the call of the channel. Without a channel it returns what
  \<^verbatim>\<open>execute({})\<close> returns, the result of the \<^verbatim>\<open>default\<close> branch with \<^verbatim>\<open>isError\<close> true
  and the text that the flavour is unknown.
\<close>

theorem empty_flavour_is_absent:
  "execute (JObj [(''flavour'', JStr '''')]) (Some elicit) = execute (JObj []) (Some elicit) \<and>
   hd (fst (execute (JObj [(''flavour'', JStr '''')]) (Some elicit))) = Elicit elicit_request \<and>
   snd (execute (JObj [(''flavour'', JStr '''')]) None) = snd (execute (JObj []) None) \<and>
   execute (JObj [(''flavour'', JStr '''')]) None =
     ([Lookup (JStr '''')],
      Fulfilled \<lparr>content = [Text (cross_mark @ '' Unknown flavour.'')], isError = Some True\<rparr>)"
  by (simp add: execute_def Let_def toppings_def unknown_flavour_result_def
      split: outcome.split)

section \<open>The dispatcher\<close>

text \<open>
  C5. A call request whose name is not the name of the tool is answered with a result
  whose \<^verbatim>\<open>isError\<close> is true and whose text is the mark, \<^verbatim>\<open>Error in\<close>, the requested name
  and \<^verbatim>\<open>Unknown tool:\<close> with that name again. When \<^verbatim>\<open>execute\<close> is rejected, the
  handler answers with a result whose \<^verbatim>\<open>isError\<close> is true and whose text is the mark,
  \<^verbatim>\<open>Error in\<close>, the name of the tool and the description of the failure: the message
  \<open>m\<close> of a thrown \<^verbatim>\<open>Error\<close>, or the string \<open>s\<close> that a thrown value of another kind
  converts to. The promise of the handler is never rejected.
\<close>

theorem call_tool_errors_become_results:
  "(name params \<noteq> getName \<longrightarrow>
      fst (call_tool_handler this params elicit) =
        ([], Fulfilled
               \<lparr>content =
                  [Text (cross_mark @ '' Error in '' @ name params @ '': Unknown tool: '' @
                         name params)],
                isError = Some True\<rparr>)) \<and>
   (name params = getName \<and>
    snd (execute (arguments params) (Some elicit)) = Rejected (JsError m) \<longrightarrow>
      snd (fst (call_tool_handler this params elicit)) =
        Fulfilled
          \<lparr>content = [Text (cross_mark @ '' Error in '' @ name params @ '': '' @ m)],
           isError = Some True\<rparr>) \<and>
   (name params = getName \<and>
    snd (execute (arguments params) (Some elicit)) = Rejected (NonError s) \<longrightarrow>
      snd (fst (call_tool_handler this params elicit)) =
        Fulfilled
          \<lparr>content = [Text (cross_mark @ '' Error in '' @ name params @ '': '' @ s)],
           isError = Some True\<rparr>) \<and>
   (\<forall>e. snd (fst (call_tool_handler this params elicit)) \<noteq> Rejected e)"
  by (auto simp add: call_tool_handler_def handleToolError_def split: prod.split outcome.split)

text \<open>
  C5 at three requests: the tool name \<^verbatim>\<open>nonexistent\<close>, a call of the tool without
  flavour while the channel rejects with an \<^verbatim>\<open>Error\<close>, and the same call while the
  channel rejects with a value that is not an \<^verbatim>\<open>Error\<close> and converts to the string
  \<^verbatim>\<open>timeout\<close>.
\<close>

theorem call_tool_errors_become_results_witness:
  "fst (call_tool_handler \<lparr>server = (), tool = IceCreamToppingRecommenderTool\<rparr>
          \<lparr>name = ''nonexistent'', arguments = JObj []\<rparr> (reply Pending)) =
     ([], Fulfilled
            \<lparr>content = [Text (cross_mark @ '' Error in nonexistent: Unknown tool: nonexistent'')],
             isError = Some True\<rparr>) \<and>
   snd (fst (call_tool_handler \<lparr>server = (), tool = IceCreamToppingRecommenderTool\<rparr>
          \<lparr>name = ''ice_cream_topping_recommender'', arguments = JObj []\<rparr>
          (reply (Rejected (JsError ''Client does not support elicitation''))))) =
     Fulfilled
       \<lparr>content =
          [Text (cross_mark @
             '' Error in ice_cream_topping_recommender: Client does not support elicitation'')],
        isError = Some True\<rparr> \<and>
   snd (fst (call_tool_handler \<lparr>server = (), tool = IceCreamToppingRecommenderTool\<rparr>
          \<lparr>name = ''ice_cream_topping_recommender'', arguments = JObj []\<rparr>
          (reply (Rejected (NonError ''timeout''))))) =
     Fulfilled
       \<lparr>content = [Text (cross_mark @ '' Error in ice_cream_topping_recommender: timeout'')],
        isError = Some True\<rparr>"
proof -
  have a: "snd (execute (JObj [])
                 (Some (reply (Rejected (JsError ''Client does not support elicitation'')))))
      = Rejected (JsError ''Client does not support elicitation'')"
    by (simp add: execute_absent reply_def)
  have b: "snd (execute (JObj []) (Some (reply (Rejected (NonError ''timeout'')))))
      = Rejected (NonError ''timeout'')"
    by (simp add: execute_absent reply_def)
  show ?thesis
    using call_tool_errors_become_results
      [of "\<lparr>name = ''nonexistent'', arguments = JObj []\<rparr>"
          "\<lparr>server = (), tool = IceCreamToppingRecommenderTool\<rparr>" "reply Pending"]
      call_tool_errors_become_results
      [of "\<lparr>name = ''ice_cream_topping_recommender'', arguments = JObj []\<rparr>"
          "\<lparr>server = (), tool = IceCreamToppingRecommenderTool\<rparr>"
          "reply (Rejected (JsError ''Client does not support elicitation''))"
          "''Client does not support elicitation''"]
      call_tool_errors_become_results
      [of "\<lparr>name = ''ice_cream_topping_recommender'', arguments = JObj []\<rparr>"
          "\<lparr>server = (), tool = IceCreamToppingRecommenderTool\<rparr>"
          "reply (Rejected (NonError ''timeout''))" _ "''timeout''"]
      a b
    by (simp add: getName_def)
qed

section \<open>Listing the tools\<close>

lemma list_tools_handler_state: "snd (list_tools_handler this) = this"
  by (simp add: list_tools_handler_def)

lemma jsonSchema_wire_shape: "wire_shape jsonSchema"
  by (simp add: wire_shape_def jsonSchema_def field_shape_def)

text \<open>
  C8. The list handler is always fulfilled, with the one descriptor of the tool (name,
  description, input schema), and gives the server object back as it was. So a second
  call, and a call after any number of calls, returns what the first call returned.
\<close>

theorem list_tools_idempotent:
  "list_tools_handler this =
     (Fulfilled
        \<lparr>tools =
           [\<lparr>tool_descriptor.name = ''ice_cream_topping_recommender'',
             description =
               ''Recommends the best ice cream toppings based on your selected flavour.'',
             inputSchema = getInputSchema\<rparr>]\<rparr>,
      this) \<and>
   list_tools_handler (snd (list_tools_handler this)) = list_tools_handler this \<and>
   list_tools_handler (((snd \<circ> list_tools_handler) ^^ n) this) = list_tools_handler this"
proof -
  have "((snd \<circ> list_tools_handler) ^^ n) this = this"
    by (induction n) (simp_all add: list_tools_handler_state)
  then show ?thesis
    by (simp add: list_tools_handler_def getName_def getDescription_def)
qed

text \<open>
  C9, what the code does. The \<^verbatim>\<open>inputSchema\<close> of the descriptor in the list response is
  the Zod schema object that \<^verbatim>\<open>getInputSchema\<close> returns, put into the response as it is
  (line 155): it is not an object of the shape \<^verbatim>\<open>{type, properties, required}\<close>. The
  \<^verbatim>\<open>requestedSchema\<close> of an elicitation is the literal \<^verbatim>\<open>jsonSchema\<close>, which has that
  shape, with the three flavours as the \<^verbatim>\<open>enum\<close> of \<^verbatim>\<open>flavour\<close>; every call of the
  channel carries it.
\<close>

theorem list_tools_inputSchema_is_zod:
  "map_option (map inputSchema \<circ> tools) (fulfilled (fst (list_tools_handler this))) =
     Some [Z_object
             [(''flavour'',
               Describe (Z_enum [''vanilla'', ''strawberry'', ''chocolate''])
                 ''Choose a flavour: vanilla, strawberry, or chocolate.'')]] \<and>
   wire_shape (requestedSchema elicit_request) \<and>
   get_prop (get_prop (get_prop (requestedSchema elicit_request) ''properties'') ''flavour'')
     ''enum'' = JArr [JStr ''vanilla'', JStr ''strawberry'', JStr ''chocolate''] \<and>
   filter is_Elicit (fst (execute args el)) \<in> {[], [Elicit elicit_request]}"
proof -
  have "filter is_Elicit (fst (execute args el)) \<in> {[], [Elicit elicit_request]}"
    using execute_trace_shape [of args el] by auto
  moreover have "requestedSchema elicit_request = jsonSchema"
    by (simp add: elicit_request_def)
  ultimately show ?thesis
    using jsonSchema_wire_shape
    by (simp add: list_tools_handler_def getInputSchema_def) (simp add: jsonSchema_def)
qed

end
